theory Spec2Isabelle
  imports Main "HOL-Library.AList" "HOL-Library.Char_ord" "HOL-Library.List_Lexorder"
begin

section \<open>Rate guard: middlewares/throttling.py\<close>

text \<open>
  A \<open>datetime\<close> is modelled as the integer number of microseconds since the epoch, which is
  the resolution of Python's \<open>datetime\<close>. A difference \<open>(a - b).total_seconds()\<close> is compared
  with a whole number of seconds \<open>s\<close> in the source; on microsecond counts this is the
  comparison of \<open>a - b\<close> with \<open>s * 1000000\<close>. Every call of \<open>datetime.now()\<close> is a separate
  argument of the model, in the order in which the source reads the clock. An update whose
  sender cannot be identified has user id \<open>None\<close>.
\<close>

type_synonym datetime = int

definition usec :: "int \<Rightarrow> int" where
  "usec seconds = seconds * 1000000"

subsection \<open>ThrottlingMiddleware\<close>

record throttling =
  rate_limit :: int
  user_requests :: "int \<rightharpoonup> datetime"

text \<open>What a call of the middleware does with the update: it runs the handler, or it drops
  the update after telling the user how long to wait (in microseconds).\<close>

datatype throttle_outcome = Handler_called | Rate_limited int

text \<open>\<open>_send_throttling_message\<close>: the wait time that the message reports.\<close>

definition send_throttling_message :: "throttling \<Rightarrow> int \<Rightarrow> int" where
  "send_throttling_message th time_diff = usec (rate_limit th) - time_diff"

text \<open>\<open>_is_rate_limited\<close>: \<open>None\<close> is the answer False, \<open>Some w\<close> the answer True after the
  message with wait time \<open>w\<close> was sent.\<close>

definition is_rate_limited :: "throttling \<Rightarrow> int \<Rightarrow> datetime \<Rightarrow> int option" where
  "is_rate_limited th user_id now =
     (case user_requests th user_id of
        None \<Rightarrow> None
      | Some last_request \<Rightarrow>
          (let time_diff = now - last_request
           in if time_diff < usec (rate_limit th)
              then Some (send_throttling_message th time_diff)
              else None))"

definition cleanup_old_entries :: "throttling \<Rightarrow> datetime \<Rightarrow> throttling" where
  "cleanup_old_entries th now =
     (let cutoff_time = now - usec 3600
      in th\<lparr>user_requests :=
              (\<lambda>user_id. case user_requests th user_id of
                           None \<Rightarrow> None
                         | Some timestamp \<Rightarrow>
                             if timestamp < cutoff_time then None else Some timestamp)\<rparr>)"

text \<open>\<open>ThrottlingMiddleware.__call__\<close>; \<open>t_check\<close>, \<open>t_update\<close> and \<open>t_cleanup\<close> are the three
  clock readings of an accepted call.\<close>

definition throttling_call ::
  "throttling \<Rightarrow> int option \<Rightarrow> datetime \<Rightarrow> datetime \<Rightarrow> datetime \<Rightarrow> throttle_outcome \<times> throttling"
where
  "throttling_call th uid t_check t_update t_cleanup =
     (case uid of
        None \<Rightarrow> (Handler_called, th)
      | Some user_id \<Rightarrow>
          (case is_rate_limited th user_id t_check of
             Some wait_time \<Rightarrow> (Rate_limited wait_time, th)
           | None \<Rightarrow>
               (Handler_called,
                cleanup_old_entries
                  (th\<lparr>user_requests := (user_requests th)(user_id \<mapsto> t_update)\<rparr>)
                  t_cleanup)))"

text \<open>The middleware as \<open>__init__\<close> leaves it, with the rate limit of the settings.\<close>

definition throttling_init :: throttling where
  "throttling_init = \<lparr>rate_limit = 1, user_requests = Map.empty\<rparr>"

subsection \<open>AntiFloodMiddleware\<close>

record anti_flood =
  flood_threshold :: int
  flood_window :: int
  user_message_count :: "int \<rightharpoonup> datetime list"
  penalties :: "int \<rightharpoonup> datetime"

datatype flood_outcome = Flood_handler_called | Dropped_penalized | Penalty_applied int

text \<open>\<open>__init__\<close> with its default arguments.\<close>

definition anti_flood_init :: anti_flood where
  "anti_flood_init =
     \<lparr>flood_threshold = 5, flood_window = 10,
      user_message_count = Map.empty, penalties = Map.empty\<rparr>"

text \<open>\<open>_is_penalized\<close>: an expired penalty is deleted.\<close>

definition is_penalized :: "anti_flood \<Rightarrow> int \<Rightarrow> datetime \<Rightarrow> bool \<times> anti_flood" where
  "is_penalized af user_id now =
     (case penalties af user_id of
        None \<Rightarrow> (False, af)
      | Some penalty_end \<Rightarrow>
          if now \<ge> penalty_end
          then (False, af\<lparr>penalties := (penalties af)(user_id := None)\<rparr>)
          else (True, af))"

text \<open>\<open>_apply_penalty\<close>: returns the penalty duration in seconds, as logged and sent to the
  user. \<open>penalty_duration\<close> is a local variable that starts at 30 in every call.\<close>

definition apply_penalty :: "anti_flood \<Rightarrow> int \<Rightarrow> datetime \<Rightarrow> int \<times> anti_flood" where
  "apply_penalty af user_id now =
     (let penalty_duration = 30;
          penalty_duration =
            (if penalties af user_id \<noteq> None then min (penalty_duration * 3) 900
             else penalty_duration);
          penalty_end = now + usec penalty_duration
      in (penalty_duration, af\<lparr>penalties := (penalties af)(user_id \<mapsto> penalty_end)\<rparr>))"

text \<open>\<open>AntiFloodMiddleware.__call__\<close>; \<open>t_pen\<close>, \<open>now\<close> and \<open>t_apply\<close> are the clock readings of
  \<open>_is_penalized\<close>, of the call itself and of \<open>_apply_penalty\<close>.\<close>

definition anti_flood_call ::
  "anti_flood \<Rightarrow> int option \<Rightarrow> datetime \<Rightarrow> datetime \<Rightarrow> datetime \<Rightarrow> flood_outcome \<times> anti_flood"
where
  "anti_flood_call af uid t_pen now t_apply =
     (case uid of
        None \<Rightarrow> (Flood_handler_called, af)
      | Some user_id \<Rightarrow>
          (let (penalized, af1) = is_penalized af user_id t_pen
           in if penalized then (Dropped_penalized, af1)
              else
                (let msgs = (case user_message_count af1 user_id of None \<Rightarrow> [] | Some ms \<Rightarrow> ms);
                     msgs = filter (\<lambda>msg_time. now - msg_time \<le> usec (flood_window af1)) msgs;
                     msgs = msgs @ [now];
                     af2 = af1\<lparr>user_message_count := (user_message_count af1)(user_id \<mapsto> msgs)\<rparr>
                 in if int (length msgs) > flood_threshold af2
                    then (let (penalty_duration, af3) = apply_penalty af2 user_id t_apply
                          in (Penalty_applied penalty_duration, af3))
                    else (Flood_handler_called, af2))))"

text \<open>A run of the middleware over a list of updates of one user, each read at a single
  instant; the outcomes are collected in order.\<close>

fun anti_flood_run :: "anti_flood \<Rightarrow> int \<Rightarrow> datetime list \<Rightarrow> flood_outcome list \<times> anti_flood" where
  "anti_flood_run af user_id [] = ([], af)"
| "anti_flood_run af user_id (t # ts) =
     (let (out, af1) = anti_flood_call af (Some user_id) t t t;
          (outs, af2) = anti_flood_run af1 user_id ts
      in (out # outs, af2))"

section \<open>Python values used by the store\<close>

subsection \<open>Dictionaries\<close>

text \<open>
  A Python \<open>dict\<close> keeps its keys in insertion order, and the store iterates over its
  dictionaries, so a dictionary is an association list: assigning to a key that is present
  replaces the value in place, assigning to a new key appends the entry.
\<close>

type_synonym ('k, 'v) dict = "('k \<times> 'v) list"

definition dict_get :: "('k, 'v) dict \<Rightarrow> 'k \<Rightarrow> 'v option" where
  "dict_get d k = map_of d k"

definition dict_contains :: "('k, 'v) dict \<Rightarrow> 'k \<Rightarrow> bool" where
  "dict_contains d k = (map_of d k \<noteq> None)"

definition dict_set :: "('k, 'v) dict \<Rightarrow> 'k \<Rightarrow> 'v \<Rightarrow> ('k, 'v) dict" where
  "dict_set d k v = AList.update k v d"

definition dict_del :: "('k, 'v) dict \<Rightarrow> 'k \<Rightarrow> ('k, 'v) dict" where
  "dict_del d k = AList.delete k d"

definition dict_values :: "('k, 'v) dict \<Rightarrow> 'v list" where
  "dict_values d = map snd d"

subsection \<open>\<open>str\<close> of an integer\<close>

definition digit_char :: "nat \<Rightarrow> char" where
  "digit_char n = ''0123456789'' ! n"

fun str_nat :: "nat \<Rightarrow> string" where
  "str_nat n = (if n < 10 then [digit_char n] else str_nat (n div 10) @ [digit_char (n mod 10)])"

declare str_nat.simps [simp del]

definition str_int :: "int \<Rightarrow> string" where
  "str_int i = (if i < 0 then CHR ''-'' # str_nat (nat (- i)) else str_nat (nat i))"

subsection \<open>Dates\<close>

text \<open>
  A \<open>date\<close> is its proleptic Gregorian ordinal (\<open>date.toordinal()\<close>, 1 for 0001-01-01,
  3652059 for 9999-12-31). Subtracting a \<open>timedelta\<close> of whole days raises
  \<open>OverflowError\<close> when the result leaves that range. \<open>isoformat\<close> follows the standard
  library: the ordinal is split into year, month and day and printed as \<open>YYYY-MM-DD\<close>
  with leading zeros.
\<close>

type_synonym date = int

datatype error = OverflowError | SaveError | AttributeError | KeyError

definition date_sub_days :: "date \<Rightarrow> int \<Rightarrow> error + date" where
  "date_sub_days d days =
     (let ordinal = d - days
      in if 0 < ordinal \<and> ordinal \<le> 3652059 then Inr ordinal else Inl OverflowError)"

definition days_in_month :: "int list" where
  "days_in_month = [-1, 31, 28, 31, 30, 31, 30, 31, 31, 30, 31, 30, 31]"

definition days_before_month :: "int list" where
  "days_before_month = [-1, 0, 31, 59, 90, 120, 151, 181, 212, 243, 273, 304, 334]"

definition ord2ymd :: "int \<Rightarrow> int \<times> int \<times> int" where
  "ord2ymd n0 =
     (let n = n0 - 1;
          n400 = n div 146097; n = n mod 146097;
          year = n400 * 400 + 1;
          n100 = n div 36524; n = n mod 36524;
          n4 = n div 1461; n = n mod 1461;
          n1 = n div 365; n = n mod 365;
          year = year + n100 * 100 + n4 * 4 + n1
      in if n1 = 4 \<or> n100 = 4 then (year - 1, 12, 31)
         else
           (let leapyear = (n1 = 3 \<and> (n4 \<noteq> 24 \<or> n100 = 3));
                month = (n + 50) div 32;
                preceding = days_before_month ! nat month
                              + (if month > 2 \<and> leapyear then 1 else 0)
            in if preceding > n
               then (let month = month - 1;
                         preceding = preceding
                           - (days_in_month ! nat month
                                + (if month = 2 \<and> leapyear then 1 else 0))
                     in (year, month, n - preceding + 1))
               else (year, month, n - preceding + 1)))"

text \<open>\<open>"%0wd"\<close> for a non-negative number: zeros on the left up to the width \<open>w\<close>.\<close>

definition zero_pad :: "nat \<Rightarrow> int \<Rightarrow> string" where
  "zero_pad w i = (let s = str_int i in replicate (w - length s) CHR ''0'' @ s)"

definition isoformat :: "date \<Rightarrow> string" where
  "isoformat d =
     (case ord2ymd d of
        (year, month, day) \<Rightarrow>
          zero_pad 4 year @ ''-'' @ zero_pad 2 month @ ''-'' @ zero_pad 2 day)"

subsection \<open>Free text\<close>

text \<open>
  Text that a user types (a message, a habit name) is a Python \<open>str\<close> of arbitrary Unicode
  characters: the list of its code points, so that \<open>len\<close> is the length of the list.
  Identifiers, dates and timestamps, which the program builds from ASCII characters, are
  strings. \<open>isspace\<close> holds for the code points that \<open>str.isspace\<close> accepts, and
  \<open>strip\<close> is \<open>str.strip()\<close> without arguments.
\<close>

type_synonym unicode = "nat list"

definition isspace :: "nat \<Rightarrow> bool" where
  "isspace c =
     (c \<in> set [9, 10, 11, 12, 13, 28, 29, 30, 31, 32, 133, 160, 5760,
               8192, 8193, 8194, 8195, 8196, 8197, 8198, 8199, 8200, 8201, 8202,
               8232, 8233, 8239, 8287, 12288])"

definition strip :: "unicode \<Rightarrow> unicode" where
  "strip s = rev (dropWhile isspace (rev (dropWhile isspace s)))"

section \<open>Habit store: services/data_manager.py\<close>

text \<open>
  The entities are the dictionaries that the store builds; a key that the store reads with
  a default (\<open>habit_data.get("active", True)\<close>) or adds later (\<open>deleted_at\<close>,
  \<open>language\<close>) is an optional field. A timestamp field holds the string that
  \<open>datetime.now().isoformat()\<close> returned; that string is an argument of the operation that
  stores it, as are today's date, the identifier that \<open>uuid.uuid4()\<close> produced and
  \<open>save_ok\<close>, which tells whether \<open>_save_data\<close> wrote the file or raised.
\<close>

record user =
  user_user_id :: int
  user_created_at :: string
  user_last_active :: string
  user_language :: "string option"

record habit =
  habit_id :: string
  habit_user_id :: int
  habit_name :: unicode
  habit_frequency :: string
  habit_created_at :: string
  habit_active :: "bool option"
  habit_deleted_at :: "string option"

record checkin =
  checkin_id :: string
  checkin_user_id :: int
  checkin_habit_id :: string
  checkin_date :: string
  checkin_timestamp :: string

record ban =
  ban_user_id :: int
  ban_reason :: string
  ban_banned_by :: int
  ban_banned_at :: string

record data_manager =
  users :: "(string, user) dict"
  habits :: "(string, habit) dict"
  checkins :: "(string, checkin) dict"
  banned_users :: "(string, ban) dict"
  total_commands :: int
  start_date :: string

text \<open>\<open>__init__\<close>.\<close>

definition data_manager_init :: "string \<Rightarrow> data_manager" where
  "data_manager_init now =
     \<lparr>users = [], habits = [], checkins = [], banned_users = [],
      total_commands = 0, start_date = now\<rparr>"

subsection \<open>User management\<close>

definition get_user :: "data_manager \<Rightarrow> int \<Rightarrow> user option" where
  "get_user dm user_id = dict_get (users dm) (str_int user_id)"

text \<open>\<open>set_user_language\<close> and \<open>update_user_activity\<close> do not catch the error of
  \<open>_save_data\<close>: it reaches the caller, after the dictionaries were changed.\<close>

definition set_user_language ::
  "data_manager \<Rightarrow> int \<Rightarrow> string \<Rightarrow> string \<Rightarrow> string \<Rightarrow> string \<Rightarrow> bool
     \<Rightarrow> (error + unit) \<times> data_manager"
where
  "set_user_language dm user_id language now_created now_active now_last save_ok =
     (let user_key = str_int user_id;
          us = (if \<not> dict_contains (users dm) user_key
                then dict_set (users dm) user_key
                       \<lparr>user_user_id = user_id, user_created_at = now_created,
                        user_last_active = now_active, user_language = None\<rparr>
                else users dm);
          us = (case dict_get us user_key of
                  None \<Rightarrow> us
                | Some u \<Rightarrow> dict_set us user_key (u\<lparr>user_language := Some language\<rparr>));
          us = (case dict_get us user_key of
                  None \<Rightarrow> us
                | Some u \<Rightarrow> dict_set us user_key (u\<lparr>user_last_active := now_last\<rparr>))
      in (if save_ok then Inr () else Inl SaveError, dm\<lparr>users := us\<rparr>))"

definition update_user_activity ::
  "data_manager \<Rightarrow> int \<Rightarrow> string \<Rightarrow> bool \<Rightarrow> (error + unit) \<times> data_manager"
where
  "update_user_activity dm user_id now save_ok =
     (let user_key = str_int user_id
      in case dict_get (users dm) user_key of
           None \<Rightarrow> (Inr (), dm)
         | Some u \<Rightarrow>
             (if save_ok then Inr () else Inl SaveError,
              dm\<lparr>users := dict_set (users dm) user_key (u\<lparr>user_last_active := now\<rparr>)\<rparr>))"

definition increment_command_count :: "data_manager \<Rightarrow> bool \<Rightarrow> (error + unit) \<times> data_manager" where
  "increment_command_count dm save_ok =
     (if save_ok then Inr () else Inl SaveError, dm\<lparr>total_commands := total_commands dm + 1\<rparr>)"

subsection \<open>Habit management\<close>

text \<open>\<open>add_habit\<close>: the result is the boolean that the method returns; a failed save is
  caught and reported as False.\<close>

definition add_habit ::
  "data_manager \<Rightarrow> int \<Rightarrow> unicode \<Rightarrow> string \<Rightarrow> string \<Rightarrow> string \<Rightarrow> bool
     \<Rightarrow> bool \<times> data_manager"
where
  "add_habit dm user_id name frequency uuid now save_ok =
     (let habit_data =
            \<lparr>habit_id = uuid, habit_user_id = user_id, habit_name = name,
             habit_frequency = frequency, habit_created_at = now,
             habit_active = Some True, habit_deleted_at = None\<rparr>
      in (save_ok, dm\<lparr>habits := dict_set (habits dm) uuid habit_data\<rparr>))"

text \<open>\<open>habit_data.get("active", True)\<close>.\<close>

definition get_active :: "habit \<Rightarrow> bool" where
  "get_active habit_data = (case habit_active habit_data of None \<Rightarrow> True | Some b \<Rightarrow> b)"

text \<open>The loop of \<open>get_user_habits\<close> over \<open>self.data["habits"].items()\<close>, with the list
  \<open>user_habits\<close> that it appends to.\<close>

fun collect_user_habits :: "(string \<times> habit) list \<Rightarrow> int \<Rightarrow> habit list \<Rightarrow> habit list" where
  "collect_user_habits [] user_id user_habits = user_habits"
| "collect_user_habits ((hid, habit_data) # items) user_id user_habits =
     (if habit_user_id habit_data = user_id \<and> get_active habit_data
      then collect_user_habits items user_id (user_habits @ [habit_data])
      else collect_user_habits items user_id user_habits)"

text \<open>\<open>list.sort\<close> with a key is stable and compares the keys, here strings, code point by
  code point; \<open>sort_key\<close> is the stable insertion sort on the lexicographic order.\<close>

definition get_user_habits :: "data_manager \<Rightarrow> int \<Rightarrow> habit list" where
  "get_user_habits dm user_id =
     sort_key habit_created_at (collect_user_habits (habits dm) user_id [])"

definition get_habit :: "data_manager \<Rightarrow> int \<Rightarrow> string \<Rightarrow> habit option" where
  "get_habit dm user_id hid =
     (case dict_get (habits dm) hid of
        None \<Rightarrow> None
      | Some habit \<Rightarrow> if habit_user_id habit = user_id then Some habit else None)"

definition delete_habit ::
  "data_manager \<Rightarrow> int \<Rightarrow> string \<Rightarrow> string \<Rightarrow> bool \<Rightarrow> bool \<times> data_manager"
where
  "delete_habit dm user_id hid now save_ok =
     (case get_habit dm user_id hid of
        Some habit \<Rightarrow>
          (let habit = habit\<lparr>habit_active := Some False\<rparr>;
               habit = habit\<lparr>habit_deleted_at := Some now\<rparr>
           in (save_ok, dm\<lparr>habits := dict_set (habits dm) hid habit\<rparr>))
      | None \<Rightarrow> (False, dm))"

subsection \<open>Check-in management\<close>

text \<open>The key \<open>f"{habit_id}_{today}"\<close> of a check-in.\<close>

definition checkin_key :: "string \<Rightarrow> string \<Rightarrow> string" where
  "checkin_key hid day = hid @ ''_'' @ day"

definition record_checkin ::
  "data_manager \<Rightarrow> int \<Rightarrow> string \<Rightarrow> date \<Rightarrow> string \<Rightarrow> bool \<Rightarrow> bool \<times> data_manager"
where
  "record_checkin dm user_id hid today_date now save_ok =
     (let today = isoformat today_date;
          cid = checkin_key hid today
      in if dict_contains (checkins dm) cid then (False, dm)
         else
           (let checkin_data =
                  \<lparr>checkin_id = cid, checkin_user_id = user_id, checkin_habit_id = hid,
                   checkin_date = today, checkin_timestamp = now\<rparr>
            in (save_ok, dm\<lparr>checkins := dict_set (checkins dm) cid checkin_data\<rparr>)))"

definition is_checked_in_today :: "data_manager \<Rightarrow> int \<Rightarrow> string \<Rightarrow> date \<Rightarrow> bool" where
  "is_checked_in_today dm user_id hid today_date =
     (let today = isoformat today_date;
          cid = checkin_key hid today
      in case dict_get (checkins dm) cid of
           None \<Rightarrow> False
         | Some c \<Rightarrow> checkin_user_id c = user_id)"

text \<open>The loop of \<open>get_current_streak\<close> over the values of \<open>i\<close> that are left, with the
  running \<open>streak\<close>; an exception leaves the loop as \<open>Inl\<close>.\<close>

fun streak_loop ::
  "(string, checkin) dict \<Rightarrow> int \<Rightarrow> string \<Rightarrow> date \<Rightarrow> nat list \<Rightarrow> int \<Rightarrow> error + int"
where
  "streak_loop cs user_id hid current_date [] streak = Inr streak"
| "streak_loop cs user_id hid current_date (i # rest) streak =
     (case date_sub_days current_date (int i) of
        Inl e \<Rightarrow> Inl e
      | Inr check_date \<Rightarrow>
          (case dict_get cs (checkin_key hid (isoformat check_date)) of
             None \<Rightarrow> Inr streak
           | Some c \<Rightarrow>
               if checkin_user_id c = user_id
               then streak_loop cs user_id hid current_date rest (streak + 1)
               else Inr streak))"

definition get_current_streak :: "data_manager \<Rightarrow> int \<Rightarrow> string \<Rightarrow> date \<Rightarrow> int" where
  "get_current_streak dm user_id hid today_date =
     (case streak_loop (checkins dm) user_id hid today_date [0..<365] 0 of
        Inr streak \<Rightarrow> streak
      | Inl e \<Rightarrow> 0)"

text \<open>The loop of \<open>get_total_checkins\<close> over \<open>self.data["checkins"].values()\<close>.\<close>

fun count_checkins :: "checkin list \<Rightarrow> int \<Rightarrow> string \<Rightarrow> int \<Rightarrow> int" where
  "count_checkins [] user_id hid count = count"
| "count_checkins (checkin_data # rest) user_id hid count =
     (if checkin_user_id checkin_data = user_id \<and> checkin_habit_id checkin_data = hid
      then count_checkins rest user_id hid (count + 1)
      else count_checkins rest user_id hid count)"

definition get_total_checkins :: "data_manager \<Rightarrow> int \<Rightarrow> string \<Rightarrow> int" where
  "get_total_checkins dm user_id hid = count_checkins (dict_values (checkins dm)) user_id hid 0"

subsection \<open>Ban management\<close>

definition ban_user ::
  "data_manager \<Rightarrow> int \<Rightarrow> string \<Rightarrow> int \<Rightarrow> string \<Rightarrow> bool \<Rightarrow> bool \<times> data_manager"
where
  "ban_user dm user_id reason banned_by now save_ok =
     (let user_key = str_int user_id
      in (save_ok,
          dm\<lparr>banned_users := dict_set (banned_users dm) user_key
                \<lparr>ban_user_id = user_id, ban_reason = reason,
                 ban_banned_by = banned_by, ban_banned_at = now\<rparr>\<rparr>))"

definition unban_user :: "data_manager \<Rightarrow> int \<Rightarrow> int \<Rightarrow> bool \<Rightarrow> bool \<times> data_manager" where
  "unban_user dm user_id unbanned_by save_ok =
     (let user_key = str_int user_id
      in if dict_contains (banned_users dm) user_key
         then (save_ok, dm\<lparr>banned_users := dict_del (banned_users dm) user_key\<rparr>)
         else (False, dm))"

definition is_user_banned :: "data_manager \<Rightarrow> int \<Rightarrow> bool" where
  "is_user_banned dm user_id = dict_contains (banned_users dm) (str_int user_id)"

definition get_ban_status :: "data_manager \<Rightarrow> int \<Rightarrow> bool \<times> ban option" where
  "get_ban_status dm user_id =
     (let ban_info = dict_get (banned_users dm) (str_int user_id)
      in (ban_info \<noteq> None, ban_info))"

subsection \<open>The mutating operations as one step function\<close>

text \<open>Every method of the store that writes to its dictionaries, with the arguments and
  the readings of the environment of one call; \<open>exec_op\<close> is the store after the call.\<close>

datatype store_op =
    Set_user_language int string string string string bool
  | Update_user_activity int string bool
  | Increment_command_count bool
  | Add_habit int unicode string string string bool
  | Delete_habit int string string bool
  | Record_checkin int string date string bool
  | Ban_user int string int string bool
  | Unban_user int int bool

fun exec_op :: "store_op \<Rightarrow> data_manager \<Rightarrow> data_manager" where
  "exec_op (Set_user_language u lang t1 t2 t3 ok) dm = snd (set_user_language dm u lang t1 t2 t3 ok)"
| "exec_op (Update_user_activity u t ok) dm = snd (update_user_activity dm u t ok)"
| "exec_op (Increment_command_count ok) dm = snd (increment_command_count dm ok)"
| "exec_op (Add_habit u name freq uuid t ok) dm = snd (add_habit dm u name freq uuid t ok)"
| "exec_op (Delete_habit u hid t ok) dm = snd (delete_habit dm u hid t ok)"
| "exec_op (Record_checkin u hid today t ok) dm = snd (record_checkin dm u hid today t ok)"
| "exec_op (Ban_user u reason by t ok) dm = snd (ban_user dm u reason by t ok)"
| "exec_op (Unban_user u by ok) dm = snd (unban_user dm u by ok)"

text \<open>At most one check-in per habit and calendar date: no two entries of the check-in
  dictionary agree on both the habit and the date. The store keeps this because every entry
  sits under the key made of its own habit and date.\<close>

definition one_checkin_per_day :: "data_manager \<Rightarrow> bool" where
  "one_checkin_per_day dm =
     distinct (map (\<lambda>c. (checkin_habit_id c, checkin_date c)) (dict_values (checkins dm)))"

definition checkins_keyed :: "data_manager \<Rightarrow> bool" where
  "checkins_keyed dm =
     (distinct (map fst (checkins dm)) \<and>
      list_all (\<lambda>(k, c). k = checkin_key (checkin_habit_id c) (checkin_date c)) (checkins dm))"

text \<open>All check-ins of the store belong to one user.\<close>

definition all_by :: "int \<Rightarrow> data_manager \<Rightarrow> bool" where
  "all_by u dm = list_all (\<lambda>(k, c). checkin_user_id c = u) (checkins dm)"

text \<open>A store in which one user has checked in for one habit on \<open>n\<close> consecutive days,
  the first of them \<open>first\<close>: \<open>record_checkin\<close> is called once on each of these days.\<close>

fun checkin_days :: "data_manager \<Rightarrow> int \<Rightarrow> string \<Rightarrow> date \<Rightarrow> nat \<Rightarrow> data_manager" where
  "checkin_days dm user_id hid first 0 = dm"
| "checkin_days dm user_id hid first (Suc n) =
     snd (record_checkin (checkin_days dm user_id hid first n) user_id hid
            (first + int n) ''12:00'' True)"

text \<open>A store after user 1 has added the habit \<open>Run\<close> under the identifier \<open>id1\<close> and
  has checked in for it on 29 February 2024.\<close>

definition store_with_habit :: data_manager where
  "store_with_habit =
     snd (record_checkin
            (snd (add_habit (data_manager_init ''t0'') 1 [82, 117, 110] ''daily'' ''id1''
                    ''2024-02-29T08:00:00'' True))
            1 ''id1'' 738945 ''2024-02-29T09:00:00'' True)"

section \<open>Habit creation dialogue: routers/commands.py\<close>

text \<open>
  The state of the dialogue of one user is the state of \<open>HabitCreationStates\<close> (or none)
  and the data bag, of which the handlers use the key \<open>habit_name\<close>. The text of a message
  is absent for a message without text; \<open>message.text.strip()\<close> then raises. The reply is
  the key of the localized text that the handler sends.
\<close>

datatype habit_creation_state = Waiting_for_name | Waiting_for_frequency | Confirming_creation

record fsm_context =
  fsm_state :: "habit_creation_state option"
  fsm_habit_name :: "unicode option"

datatype reply =
    Habit_name_length_error | Add_habit_frequency_prompt
  | Invalid_frequency_error | Habit_created_success | Habit_creation_error

text \<open>\<open>process_habit_name\<close>, the handler of a message in state \<open>waiting_for_name\<close>. It reads
  the store only for the language of the reply and calls no operation that changes it.\<close>

definition process_habit_name :: "fsm_context \<Rightarrow> unicode option \<Rightarrow> error + reply \<times> fsm_context" where
  "process_habit_name ctx message_text =
     (case message_text of
        None \<Rightarrow> Inl AttributeError
      | Some txt \<Rightarrow>
          (let name = strip txt
           in if length name < 2 \<or> length name > 50
              then Inr (Habit_name_length_error, ctx)
              else Inr (Add_habit_frequency_prompt,
                        ctx\<lparr>fsm_habit_name := Some name,
                            fsm_state := Some Waiting_for_frequency\<rparr>)))"

text \<open>The dictionary \<open>frequency_map\<close> of \<open>process_habit_frequency\<close>; its keys are English and
  Russian phrases, given by their code points.\<close>

definition frequency_map :: "(unicode, string) dict" where
  "frequency_map =
     [([100, 97, 105, 108, 121], ''daily''),
      ([1082, 1072, 1078, 1076, 1099, 1081, 32, 1076, 1077, 1085, 1100], ''daily''),
      ([1077, 1078, 1077, 1076, 1085, 1077, 1074, 1085, 1086], ''daily''),
      ([119, 101, 101, 107, 108, 121], ''weekly''),
      ([1077, 1078, 1077, 1085, 1077, 1076, 1077, 1083, 1100, 1085, 1086], ''weekly''),
      ([1088, 1072, 1079, 32, 1074, 32, 1085, 1077, 1076, 1077, 1083, 1102], ''weekly''),
      ([51, 32, 116, 105, 109, 101, 115, 32, 97, 32, 119, 101, 101, 107], ''3_times_week''),
      ([51, 32, 1088, 1072, 1079, 1072, 32, 1074, 32, 1085, 1077, 1076, 1077, 1083, 1102],
       ''3_times_week'')]"

text \<open>\<open>process_habit_frequency\<close>, the handler of a message in state
  \<open>waiting_for_frequency\<close>, for the user \<open>user_id\<close>. \<open>lower\<close> stands for \<open>str.lower\<close>, whose table
  of case mappings belongs to the Python library; \<open>uuid\<close>, \<open>now\<close> and \<open>save_ok\<close> are what
  \<open>add_habit\<close> reads from its environment. \<open>state.clear()\<close> drops the state and the data.\<close>

definition process_habit_frequency ::
  "(unicode \<Rightarrow> unicode) \<Rightarrow> fsm_context \<Rightarrow> data_manager \<Rightarrow> int \<Rightarrow> unicode option
     \<Rightarrow> string \<Rightarrow> string \<Rightarrow> bool \<Rightarrow> error + reply \<times> fsm_context \<times> data_manager"
where
  "process_habit_frequency lower ctx dm user_id message_text uuid now save_ok =
     (case message_text of
        None \<Rightarrow> Inl AttributeError
      | Some txt \<Rightarrow>
          (let frequency_text = lower (strip txt)
           in case dict_get frequency_map frequency_text of
                None \<Rightarrow> Inr (Invalid_frequency_error, ctx, dm)
              | Some frequency \<Rightarrow>
                  (case fsm_habit_name ctx of
                     None \<Rightarrow> Inl KeyError
                   | Some name \<Rightarrow>
                       (let (success, dm1) = add_habit dm user_id name frequency uuid now save_ok
                        in Inr (if success then Habit_created_success else Habit_creation_error,
                                \<lparr>fsm_state = None, fsm_habit_name = None\<rparr>, dm1)))))"

section \<open>Properties of the rate guard\<close>

subsection \<open>Flood penalties\<close>

lemma apply_penalty_duration:
  "fst (apply_penalty af u t) = (if penalties af u = None then 30 else 90)"
  by (simp add: apply_penalty_def Let_def)

lemma is_penalized_clears:
  "is_penalized af u t = (False, af1) \<Longrightarrow> penalties af1 u = None"
  by (auto simp: is_penalized_def split: option.splits if_splits)

text \<open>Through the middleware, \<open>_apply_penalty\<close> only runs after \<open>_is_penalized\<close> has answered
  False, that is, when no penalty is stored for the user: every penalty lasts 30 seconds.\<close>

lemma anti_flood_call_penalty_30:
  "fst (anti_flood_call af (Some u) t1 t2 t3) = Penalty_applied d \<Longrightarrow> d = 30"
  by (auto simp: anti_flood_call_def apply_penalty_def is_penalized_def Let_def
      split: option.splits if_splits prod.splits)

text \<open>
  C1 (the code departs from the claim). The claim: the first flood penalty lasts 30 seconds
  and each repeated violation triples the previous duration up to 900 seconds
  (30, 90, 270, 810, 900, ...). The code at the failing input: one user sends updates at
  seconds 0 to 5 and again at seconds 40 to 45; the sixth update of each burst is a
  violation, and both penalties last 30 seconds. Calling \<open>_apply_penalty\<close> three times in
  a row for a user whose penalty is still stored gives 30, 90 and 90 seconds: the duration
  starts from 30 in every call and is never tripled twice.
\<close>

theorem flood_penalty_not_escalated:
  "fst (anti_flood_run anti_flood_init 7
          (map usec [0, 1, 2, 3, 4, 5, 40, 41, 42, 43, 44, 45])) =
     [Flood_handler_called, Flood_handler_called, Flood_handler_called,
      Flood_handler_called, Flood_handler_called, Penalty_applied 30,
      Flood_handler_called, Flood_handler_called, Flood_handler_called,
      Flood_handler_called, Flood_handler_called, Penalty_applied 30]
   \<and> (let (d1, af1) = apply_penalty anti_flood_init 7 0;
           (d2, af2) = apply_penalty af1 7 (usec 1);
           (d3, af3) = apply_penalty af2 7 (usec 2)
       in [d1, d2, d3]) = [30, 90, 90]"
  by (simp add: anti_flood_call_def apply_penalty_def is_penalized_def anti_flood_init_def
        Let_def usec_def)

text \<open>
  C5, as stated, fails: a user with five updates in the window sends a sixth, the penalty
  is applied, and the window of that user still holds all six timestamps.
\<close>

theorem flood_window_kept_counterexample:
  "fst (anti_flood_call
          (anti_flood_init\<lparr>user_message_count :=
             [7 \<mapsto> [0, 1000000, 2000000, 3000000, 4000000]]\<rparr>)
          (Some 7) 5000000 5000000 5000000) = Penalty_applied 30
   \<and> user_message_count
        (snd (anti_flood_call
                (anti_flood_init\<lparr>user_message_count :=
                   [7 \<mapsto> [0, 1000000, 2000000, 3000000, 4000000]]\<rparr>)
                (Some 7) 5000000 5000000 5000000)) 7
       = Some [0, 1000000, 2000000, 3000000, 4000000, 5000000]"
  by (simp add: anti_flood_call_def apply_penalty_def is_penalized_def anti_flood_init_def
        Let_def usec_def)

text \<open>
  C5 (amended). When the flood gate puts a user into a penalty, the handler is not called
  (the outcome is the penalty), the penalty end is stored for the user, and the user's
  sliding window is kept: it holds the timestamps that were still inside the window
  followed by the timestamp of the current update, so it is not empty.
\<close>

theorem flood_penalty_keeps_window:
  assumes "fst (anti_flood_call af (Some u) t_pen now t_apply) = Penalty_applied d"
  shows "user_message_count (snd (anti_flood_call af (Some u) t_pen now t_apply)) u =
           Some (filter (\<lambda>t. now - t \<le> usec (flood_window af))
                   (case user_message_count af u of None \<Rightarrow> [] | Some ms \<Rightarrow> ms) @ [now])
       \<and> user_message_count (snd (anti_flood_call af (Some u) t_pen now t_apply)) u \<noteq> Some []
       \<and> penalties (snd (anti_flood_call af (Some u) t_pen now t_apply)) u
           = Some (t_apply + usec d)"
  using assms
  by (auto simp: anti_flood_call_def apply_penalty_def is_penalized_def Let_def
      split: option.splits if_splits prod.splits)

theorem flood_penalty_keeps_window_witness:
  "fst (anti_flood_call
          (anti_flood_init\<lparr>user_message_count :=
             [7 \<mapsto> [0, 1000000, 2000000, 3000000, 4000000]]\<rparr>)
          (Some 7) 5000000 5000001 5000002) = Penalty_applied 30
   \<and> user_message_count
        (snd (anti_flood_call
                (anti_flood_init\<lparr>user_message_count :=
                   [7 \<mapsto> [0, 1000000, 2000000, 3000000, 4000000]]\<rparr>)
                (Some 7) 5000000 5000001 5000002)) 7
       = Some [0, 1000000, 2000000, 3000000, 4000000, 5000001]
   \<and> penalties
        (snd (anti_flood_call
                (anti_flood_init\<lparr>user_message_count :=
                   [7 \<mapsto> [0, 1000000, 2000000, 3000000, 4000000]]\<rparr>)
                (Some 7) 5000000 5000001 5000002)) 7
       = Some 35000002"
proof -
  have h: "fst (anti_flood_call
          (anti_flood_init\<lparr>user_message_count :=
             [7 \<mapsto> [0, 1000000, 2000000, 3000000, 4000000]]\<rparr>)
          (Some 7) 5000000 5000001 5000002) = Penalty_applied 30"
    by (simp add: anti_flood_call_def apply_penalty_def is_penalized_def anti_flood_init_def
          Let_def usec_def)
  show ?thesis
    using h flood_penalty_keeps_window [OF h]
    by (simp add: anti_flood_init_def usec_def)
qed

subsection \<open>Pacing\<close>

text \<open>
  C7. For an identified user the pacing gate drops the update exactly when a last accepted
  timestamp is stored for the user and the time since then is strictly below the minimum
  interval. A dropped update reports the interval minus the elapsed time and leaves the
  stored timestamps as they were. An accepted update stores the clock reading taken at the
  update as the user's last accepted timestamp (the clean-up that follows removes only
  entries older than an hour at its own clock reading). From the initial state, two updates
  0.1 second apart under the interval of 1 second: the first is handled, the second is
  dropped with a wait of 0.9 second. Times are in microseconds.
\<close>

theorem pacing_gate:
  "((\<exists>w. fst (throttling_call th (Some u) t1 t2 t3) = Rate_limited w) \<longleftrightarrow>
      (\<exists>last. user_requests th u = Some last \<and> t1 - last < usec (rate_limit th)))
   \<and> (\<forall>last. user_requests th u = Some last \<and> t1 - last < usec (rate_limit th) \<longrightarrow>
         throttling_call th (Some u) t1 t2 t3 =
           (Rate_limited (usec (rate_limit th) - (t1 - last)), th))
   \<and> (fst (throttling_call th (Some u) t1 t2 t3) = Handler_called \<and> t3 - t2 \<le> usec 3600 \<longrightarrow>
         user_requests (snd (throttling_call th (Some u) t1 t2 t3)) u = Some t2)
   \<and> (let (o1, th1) = throttling_call throttling_init (Some u) t0 t0 t0;
           (o2, th2) = throttling_call th1 (Some u) (t0 + 100000) (t0 + 100000) (t0 + 100000)
       in o1 = Handler_called \<and> o2 = Rate_limited 900000 \<and> user_requests th2 u = Some t0)"
proof (intro conjI)
  show "(\<exists>w. fst (throttling_call th (Some u) t1 t2 t3) = Rate_limited w) \<longleftrightarrow>
      (\<exists>last. user_requests th u = Some last \<and> t1 - last < usec (rate_limit th))"
    by (cases "is_rate_limited th u t1")
       (auto simp: throttling_call_def is_rate_limited_def Let_def split: option.splits if_splits)
  show "\<forall>last. user_requests th u = Some last \<and> t1 - last < usec (rate_limit th) \<longrightarrow>
         throttling_call th (Some u) t1 t2 t3 =
           (Rate_limited (usec (rate_limit th) - (t1 - last)), th)"
    by (simp add: throttling_call_def is_rate_limited_def send_throttling_message_def Let_def)
  show "fst (throttling_call th (Some u) t1 t2 t3) = Handler_called \<and> t3 - t2 \<le> usec 3600 \<longrightarrow>
         user_requests (snd (throttling_call th (Some u) t1 t2 t3)) u = Some t2"
    by (auto simp: throttling_call_def cleanup_old_entries_def Let_def split: option.splits)
  show "let (o1, th1) = throttling_call throttling_init (Some u) t0 t0 t0;
           (o2, th2) = throttling_call th1 (Some u) (t0 + 100000) (t0 + 100000) (t0 + 100000)
       in o1 = Handler_called \<and> o2 = Rate_limited 900000 \<and> user_requests th2 u = Some t0"
    by (simp add: throttling_call_def is_rate_limited_def send_throttling_message_def
          cleanup_old_entries_def throttling_init_def Let_def usec_def)
qed

theorem pacing_gate_witness:
  "user_requests (throttling_init\<lparr>user_requests := [7 \<mapsto> 0]\<rparr>) 7 = Some 0
   \<and> (100000::int) - 0 < usec (rate_limit (throttling_init\<lparr>user_requests := [7 \<mapsto> 0]\<rparr>))
   \<and> throttling_call (throttling_init\<lparr>user_requests := [7 \<mapsto> 0]\<rparr>) (Some 7)
        100000 100001 100002
        = (Rate_limited 900000, throttling_init\<lparr>user_requests := [7 \<mapsto> 0]\<rparr>)
   \<and> fst (throttling_call (throttling_init\<lparr>user_requests := [7 \<mapsto> 0]\<rparr>) (Some 7)
        1000000 1000001 1000002) = Handler_called
   \<and> (1000002::int) - 1000001 \<le> usec 3600
   \<and> user_requests (snd (throttling_call (throttling_init\<lparr>user_requests := [7 \<mapsto> 0]\<rparr>)
        (Some 7) 1000000 1000001 1000002)) 7 = Some 1000001"
  using pacing_gate [of "throttling_init\<lparr>user_requests := [7 \<mapsto> 0]\<rparr>" 7 100000 100001 100002 0]
        pacing_gate [of "throttling_init\<lparr>user_requests := [7 \<mapsto> 0]\<rparr>" 7 1000000 1000001 1000002 0]
  by (simp add: throttling_init_def usec_def throttling_call_def is_rate_limited_def Let_def)

section \<open>Properties of the habit store\<close>

subsection \<open>Dictionaries\<close>

lemma dict_get_set:
  "dict_get (dict_set d k v) k' = (if k' = k then Some v else dict_get d k')"
  by (simp add: dict_get_def dict_set_def update_conv')

lemma dict_set_new:
  "\<not> dict_contains d k \<Longrightarrow> dict_set d k v = d @ [(k, v)]"
  by (induction d) (auto simp: dict_contains_def dict_set_def)

lemma dict_contains_get: "dict_contains d k \<longleftrightarrow> dict_get d k \<noteq> None"
  by (simp add: dict_contains_def dict_get_def)

lemma dict_contains_keys: "dict_contains d k \<longleftrightarrow> k \<in> fst ` set d"
  by (simp add: dict_contains_def map_of_eq_None_iff)

subsection \<open>Evaluation on examples\<close>

text \<open>The dates of the examples: 26 to 29 February and 1 March 2024.\<close>

lemma ord2ymd_examples:
  "ord2ymd 738942 = (2024, 2, 26)" "ord2ymd 738943 = (2024, 2, 27)"
  "ord2ymd 738944 = (2024, 2, 28)" "ord2ymd 738945 = (2024, 2, 29)"
  "ord2ymd 738946 = (2024, 3, 1)"
  by (simp_all add: ord2ymd_def Let_def days_before_month_def days_in_month_def)

lemma zero_pad_examples:
  "zero_pad 4 2024 = ''2024''" "zero_pad 2 2 = ''02''" "zero_pad 2 3 = ''03''"
  "zero_pad 2 1 = ''01''" "zero_pad 2 26 = ''26''" "zero_pad 2 27 = ''27''"
  "zero_pad 2 28 = ''28''" "zero_pad 2 29 = ''29''"
  by (simp_all add: zero_pad_def str_int_def str_nat.simps digit_char_def Let_def)

lemma isoformat_examples:
  "isoformat 738942 = ''2024-02-26''" "isoformat 738943 = ''2024-02-27''"
  "isoformat 738944 = ''2024-02-28''" "isoformat 738945 = ''2024-02-29''"
  "isoformat 738946 = ''2024-03-01''"
  by (simp_all add: isoformat_def ord2ymd_examples zero_pad_examples)

lemmas store_eval =
  isoformat_examples data_manager_init_def record_checkin_def is_checked_in_today_def
  checkin_key_def dict_contains_def dict_get_def dict_set_def dict_values_def Let_def

subsection \<open>Check-ins\<close>

lemma record_checkin_duplicate:
  "dict_contains (checkins dm) (checkin_key hid (isoformat today)) \<Longrightarrow>
   record_checkin dm u hid today now ok = (False, dm)"
  by (simp add: record_checkin_def Let_def)

lemma record_checkin_new:
  "\<not> dict_contains (checkins dm) (checkin_key hid (isoformat today)) \<Longrightarrow>
   record_checkin dm u hid today now ok =
     (ok, dm\<lparr>checkins := checkins dm @
        [(checkin_key hid (isoformat today),
          \<lparr>checkin_id = checkin_key hid (isoformat today), checkin_user_id = u,
           checkin_habit_id = hid, checkin_date = isoformat today,
           checkin_timestamp = now\<rparr>)]\<rparr>)"
  by (simp add: record_checkin_def Let_def dict_set_new)

lemma exec_op_checkins:
  "checkins (exec_op op dm) = checkins dm \<or>
   (\<exists>u hid today now ok. op = Record_checkin u hid today now ok \<and>
       \<not> dict_contains (checkins dm) (checkin_key hid (isoformat today)) \<and>
       checkins (exec_op op dm) = checkins dm @
        [(checkin_key hid (isoformat today),
          \<lparr>checkin_id = checkin_key hid (isoformat today), checkin_user_id = u,
           checkin_habit_id = hid, checkin_date = isoformat today,
           checkin_timestamp = now\<rparr>)])"
proof (cases op)
  case (Record_checkin u hid today now ok)
  then show ?thesis
    by (cases "dict_contains (checkins dm) (checkin_key hid (isoformat today))")
       (simp_all add: record_checkin_duplicate record_checkin_new)
qed (auto simp: set_user_language_def update_user_activity_def increment_command_count_def
       add_habit_def delete_habit_def ban_user_def unban_user_def Let_def
       split: option.splits)

lemma checkins_keyed_exec_op:
  assumes "checkins_keyed dm"
  shows "checkins_keyed (exec_op op dm)"
  using exec_op_checkins [of op dm] assms
  by (auto simp: checkins_keyed_def dict_contains_keys)

lemma distinct_map_imp: "distinct (map g ys) \<Longrightarrow> distinct ys"
  by (simp add: distinct_map)

lemma checkins_keyed_one_per_day:
  assumes "checkins_keyed dm"
  shows "one_checkin_per_day dm"
proof -
  let ?f = "\<lambda>c. (checkin_habit_id c, checkin_date c)"
  let ?g = "\<lambda>p. checkin_key (fst p) (snd p)"
  have keys: "map fst (checkins dm) = map ?g (map ?f (map snd (checkins dm)))"
    using assms by (auto simp: checkins_keyed_def list_all_iff)
  have "distinct (map ?g (map ?f (map snd (checkins dm))))"
    using assms keys by (simp add: checkins_keyed_def)
  then have "distinct (map ?f (map snd (checkins dm)))"
    by (rule distinct_map_imp)
  then show ?thesis by (simp add: one_checkin_per_day_def dict_values_def)
qed

lemma checkins_keyed_init: "checkins_keyed (data_manager_init now)"
  by (simp add: checkins_keyed_def data_manager_init_def)

lemma checkins_keyed_run: "checkins_keyed dm \<Longrightarrow> checkins_keyed (foldl (\<lambda>d op. exec_op op d) dm ops)"
  by (induction ops arbitrary: dm) (simp_all add: checkins_keyed_exec_op)

text \<open>
  C2. \<open>record_checkin\<close> returns False and leaves the store as it is when the check-in
  dictionary already has the key of the habit and today's date, whichever user the stored
  check-in belongs to. Otherwise it appends exactly one entry for that habit and date, and
  returns True when the file was written (the result is \<open>ok\<close>, the outcome of the save: a
  failed save is reported as False after the entry was added). Every operation of the store
  keeps the check-in dictionary keyed by habit and date, so that at most one check-in per
  habit and date holds in every store reached from the initial one. Two calls for the same
  habit on the same date, the first one saved: True, then False, and the second changes
  nothing.
\<close>

theorem checkin_unique:
  "(dict_contains (checkins dm) (checkin_key hid (isoformat today)) \<longrightarrow>
      record_checkin dm u hid today now ok = (False, dm))
   \<and> (\<not> dict_contains (checkins dm) (checkin_key hid (isoformat today)) \<longrightarrow>
      record_checkin dm u hid today now ok =
        (ok, dm\<lparr>checkins := checkins dm @
           [(checkin_key hid (isoformat today),
             \<lparr>checkin_id = checkin_key hid (isoformat today), checkin_user_id = u,
              checkin_habit_id = hid, checkin_date = isoformat today,
              checkin_timestamp = now\<rparr>)]\<rparr>))
   \<and> (checkins_keyed dm \<longrightarrow>
        one_checkin_per_day dm \<and> checkins_keyed (exec_op op dm)
        \<and> one_checkin_per_day (exec_op op dm))
   \<and> one_checkin_per_day (foldl (\<lambda>d op. exec_op op d) (data_manager_init t0) ops)
   \<and> (\<not> dict_contains (checkins dm) (checkin_key hid (isoformat today)) \<longrightarrow>
        (let (r1, dm1) = record_checkin dm u hid today now True;
             (r2, dm2) = record_checkin dm1 u' hid today now' ok'
         in r1 \<and> \<not> r2 \<and> dm2 = dm1))"
proof (intro conjI impI)
  assume "dict_contains (checkins dm) (checkin_key hid (isoformat today))"
  then show "record_checkin dm u hid today now ok = (False, dm)"
    by (rule record_checkin_duplicate)
next
  assume "\<not> dict_contains (checkins dm) (checkin_key hid (isoformat today))"
  then show "record_checkin dm u hid today now ok =
        (ok, dm\<lparr>checkins := checkins dm @
           [(checkin_key hid (isoformat today),
             \<lparr>checkin_id = checkin_key hid (isoformat today), checkin_user_id = u,
              checkin_habit_id = hid, checkin_date = isoformat today,
              checkin_timestamp = now\<rparr>)]\<rparr>)"
    by (rule record_checkin_new)
next
  assume k: "checkins_keyed dm"
  show "one_checkin_per_day dm" using k by (rule checkins_keyed_one_per_day)
  show "checkins_keyed (exec_op op dm)" using k by (rule checkins_keyed_exec_op)
  then show "one_checkin_per_day (exec_op op dm)" by (rule checkins_keyed_one_per_day)
next
  show "one_checkin_per_day (foldl (\<lambda>d op. exec_op op d) (data_manager_init t0) ops)"
    by (intro checkins_keyed_one_per_day checkins_keyed_run checkins_keyed_init)
next
  assume n: "\<not> dict_contains (checkins dm) (checkin_key hid (isoformat today))"
  show "let (r1, dm1) = record_checkin dm u hid today now True;
             (r2, dm2) = record_checkin dm1 u' hid today now' ok'
         in r1 \<and> \<not> r2 \<and> dm2 = dm1"
    using n by (simp add: record_checkin_def Let_def dict_contains_get dict_get_set)
qed

theorem checkin_unique_witness:
  "\<not> dict_contains (checkins (data_manager_init ''t0'')) (checkin_key ''h'' (isoformat 738945))
   \<and> record_checkin (data_manager_init ''t0'') 1 ''h'' 738945 ''12:00'' True =
        (True, checkin_days (data_manager_init ''t0'') 1 ''h'' 738945 1)
   \<and> checkins (checkin_days (data_manager_init ''t0'') 1 ''h'' 738945 1) =
        [(''h_2024-02-29'',
          \<lparr>checkin_id = ''h_2024-02-29'', checkin_user_id = 1, checkin_habit_id = ''h'',
           checkin_date = ''2024-02-29'', checkin_timestamp = ''12:00''\<rparr>)]
   \<and> dict_contains (checkins (checkin_days (data_manager_init ''t0'') 1 ''h'' 738945 1))
        (checkin_key ''h'' (isoformat 738945))
   \<and> record_checkin (checkin_days (data_manager_init ''t0'') 1 ''h'' 738945 1)
        2 ''h'' 738945 ''12:05'' True
        = (False, checkin_days (data_manager_init ''t0'') 1 ''h'' 738945 1)
   \<and> checkins_keyed (checkin_days (data_manager_init ''t0'') 1 ''h'' 738945 1)
   \<and> one_checkin_per_day
        (exec_op (Record_checkin 2 ''h'' 738946 ''12:10'' True)
           (checkin_days (data_manager_init ''t0'') 1 ''h'' 738945 1))"
proof -
  let ?s0 = "data_manager_init ''t0''"
  let ?s1 = "checkin_days (data_manager_init ''t0'') 1 ''h'' 738945 1"
  have a: "\<not> dict_contains (checkins ?s0) (checkin_key ''h'' (isoformat 738945))"
    by (simp add: store_eval)
  have b: "dict_contains (checkins ?s1) (checkin_key ''h'' (isoformat 738945))"
    by (simp add: store_eval)
  have c: "checkins_keyed ?s1"
    by (simp add: store_eval checkins_keyed_def)
  have d: "checkins ?s1 =
        [(''h_2024-02-29'',
          \<lparr>checkin_id = ''h_2024-02-29'', checkin_user_id = 1, checkin_habit_id = ''h'',
           checkin_date = ''2024-02-29'', checkin_timestamp = ''12:00''\<rparr>)]"
    by (simp add: store_eval)
  have e: "?s0\<lparr>checkins := checkins ?s0 @
           [(checkin_key ''h'' (isoformat 738945),
             \<lparr>checkin_id = checkin_key ''h'' (isoformat 738945), checkin_user_id = 1,
              checkin_habit_id = ''h'', checkin_date = isoformat 738945,
              checkin_timestamp = ''12:00''\<rparr>)]\<rparr> = ?s1"
    by (simp add: store_eval)
  note A = checkin_unique [where dm = ?s0 and hid = "''h''" and today = 738945 and u = 1
             and now = "''12:00''" and ok = True]
  note B = checkin_unique [where dm = ?s1 and hid = "''h''" and today = 738945 and u = 2
             and now = "''12:05''" and ok = True
             and op = "Record_checkin 2 ''h'' 738946 ''12:10'' True"]
  from A a have 1: "record_checkin ?s0 1 ''h'' 738945 ''12:00'' True = (True, ?s1)"
    unfolding e [symmetric] by blast
  from B b have 2: "record_checkin ?s1 2 ''h'' 738945 ''12:05'' True = (False, ?s1)"
    by blast
  from B c have 3: "one_checkin_per_day (exec_op (Record_checkin 2 ''h'' 738946 ''12:10'' True) ?s1)"
    by blast
  from a 1 d b 2 c 3 show ?thesis by blast
qed

subsection \<open>Streaks\<close>

lemma takeWhile_upt_prefix:
  assumes "\<forall>i<n. Q i" and "n \<le> m" and "n < m \<longrightarrow> \<not> Q n"
  shows "takeWhile Q [0..<m] = [0..<n]"
proof -
  have split: "[0..<m] = [0..<n] @ [n..<m]"
    using assms(2) by (metis le_add_diff_inverse upt_add_eq_append zero_le)
  have rest: "takeWhile Q [n..<m] = []"
  proof (cases "n < m")
    case True
    then show ?thesis using assms(3) by (simp add: upt_conv_Cons)
  next
    case False
    then show ?thesis by simp
  qed
  have "takeWhile Q ([0..<n] @ [n..<m]) = [0..<n] @ takeWhile Q [n..<m]"
    using assms(1) by (intro takeWhile_append2) simp
  then show ?thesis using split rest by simp
qed

lemma streak_loop_takeWhile:
  assumes "\<forall>i\<in>set is. 0 < today - int i \<and> today - int i \<le> 3652059"
  shows "streak_loop (checkins dm) u hid today is acc =
           Inr (acc + int (length (takeWhile (\<lambda>i. is_checked_in_today dm u hid (today - int i)) is)))"
  using assms
proof (induction "is" arbitrary: acc)
  case Nil
  then show ?case by simp
next
  case (Cons i rest)
  then have d: "date_sub_days today (int i) = Inr (today - int i)"
    by (simp add: date_sub_days_def Let_def)
  show ?case
  proof (cases "is_checked_in_today dm u hid (today - int i)")
    case True
    then obtain c where c: "dict_get (checkins dm) (checkin_key hid (isoformat (today - int i))) = Some c"
      "checkin_user_id c = u"
      by (auto simp: is_checked_in_today_def Let_def split: option.splits)
    have "streak_loop (checkins dm) u hid today (i # rest) acc =
            streak_loop (checkins dm) u hid today rest (acc + 1)"
      using d c by simp
    also have "\<dots> = Inr (acc + 1 + int (length (takeWhile (\<lambda>i. is_checked_in_today dm u hid (today - int i)) rest)))"
      using Cons by simp
    finally show ?thesis using True by simp
  next
    case False
    then have "streak_loop (checkins dm) u hid today (i # rest) acc = Inr acc"
      using d by (auto simp: is_checked_in_today_def Let_def split: option.splits)
    then show ?thesis using False by simp
  qed
qed

lemma get_current_streak_takeWhile:
  assumes "365 \<le> today" and "today \<le> 3652059"
  shows "get_current_streak dm u hid today =
           int (length (takeWhile (\<lambda>i. is_checked_in_today dm u hid (today - int i)) [0..<365]))"
proof -
  have "\<forall>i\<in>set [0..<365]. 0 < today - int i \<and> today - int i \<le> 3652059"
    using assms by auto
  then show ?thesis
    by (simp add: get_current_streak_def streak_loop_takeWhile)
qed

lemma get_current_streak_prefix:
  assumes "365 \<le> today" and "today \<le> 3652059"
    and "\<forall>i<n. is_checked_in_today dm u hid (today - int i)"
    and "n \<le> 365" and "n < 365 \<longrightarrow> \<not> is_checked_in_today dm u hid (today - int n)"
  shows "get_current_streak dm u hid today = int n"
proof -
  have "takeWhile (\<lambda>i. is_checked_in_today dm u hid (today - int i)) [0..<365] = [0..<n]"
    using assms(3-5) by (intro takeWhile_upt_prefix) auto
  then show ?thesis using get_current_streak_takeWhile [OF assms(1,2)] by simp
qed

lemma is_checked_in_today_record_checkin:
  assumes "is_checked_in_today dm u hid d"
  shows "is_checked_in_today (snd (record_checkin dm u' hid' d' now ok)) u hid d"
proof (cases "dict_contains (checkins dm) (checkin_key hid' (isoformat d'))")
  case True
  then show ?thesis using assms by (simp add: record_checkin_duplicate)
next
  case False
  then have "checkin_key hid (isoformat d) \<noteq> checkin_key hid' (isoformat d')"
    using assms by (auto simp: is_checked_in_today_def dict_contains_get Let_def split: option.splits)
  then show ?thesis using assms False
    by (simp add: record_checkin_def is_checked_in_today_def Let_def dict_get_set)
qed

lemma all_by_record_checkin:
  "all_by u dm \<Longrightarrow> all_by u (snd (record_checkin dm u hid d now ok))"
  by (cases "dict_contains (checkins dm) (checkin_key hid (isoformat d))")
     (simp_all add: record_checkin_duplicate record_checkin_new all_by_def)

lemma record_checkin_checked_in:
  assumes "all_by u dm"
  shows "is_checked_in_today (snd (record_checkin dm u hid d now ok)) u hid d"
proof (cases "dict_contains (checkins dm) (checkin_key hid (isoformat d))")
  case True
  then obtain c where c: "map_of (checkins dm) (checkin_key hid (isoformat d)) = Some c"
    by (auto simp: dict_contains_def)
  then have "(checkin_key hid (isoformat d), c) \<in> set (checkins dm)"
    by (rule map_of_SomeD)
  then have "checkin_user_id c = u"
    using assms by (auto simp: all_by_def list_all_iff)
  then show ?thesis using True c
    by (simp add: record_checkin_duplicate is_checked_in_today_def dict_get_def Let_def)
next
  case False
  then show ?thesis
    by (simp add: record_checkin_def is_checked_in_today_def Let_def dict_get_set)
qed

lemma all_by_checkin_days: "all_by u dm \<Longrightarrow> all_by u (checkin_days dm u hid first n)"
  by (induction n) (simp_all add: all_by_record_checkin)

lemma checkin_days_checked_in:
  assumes "all_by u dm" and "j < n"
  shows "is_checked_in_today (checkin_days dm u hid first n) u hid (first + int j)"
  using assms(2)
proof (induction n)
  case 0
  then show ?case by simp
next
  case (Suc n)
  show ?case
  proof (cases "j = n")
    case True
    then show ?thesis
      using all_by_checkin_days [OF assms(1)] by (simp add: record_checkin_checked_in)
  next
    case False
    then have "j < n" using Suc.prems by simp
    then show ?thesis using Suc.IH by (simp add: is_checked_in_today_record_checkin)
  qed
qed

lemma all_by_init: "all_by u (data_manager_init t)"
  by (simp add: all_by_def data_manager_init_def)

text \<open>
  C4. Today's date is a date from which 364 days can be subtracted (its ordinal is at least
  365, that is, 0001-12-31 or later). Then \<open>get_current_streak\<close> is between 0 and 365 and is
  the number of days, counted backward from today over at most 365 days and up to the first
  day without one, that have a check-in of the habit by the user (\<open>is_checked_in_today\<close> at
  that day). Check-ins today, yesterday and the day before and none three days ago give 3;
  no check-in at all gives 0; an unbroken run of 400 days gives 365.
\<close>

theorem current_streak:
  assumes "365 \<le> today" and "today \<le> 3652059"
  shows "(0 \<le> get_current_streak dm u hid today \<and> get_current_streak dm u hid today \<le> 365)
    \<and> get_current_streak dm u hid today =
           int (length (takeWhile (\<lambda>i. is_checked_in_today dm u hid (today - int i)) [0..<365]))
    \<and> (is_checked_in_today dm u hid today \<and> is_checked_in_today dm u hid (today - 1)
         \<and> is_checked_in_today dm u hid (today - 2) \<and> \<not> is_checked_in_today dm u hid (today - 3)
         \<longrightarrow> get_current_streak dm u hid today = 3)
    \<and> (checkins dm = [] \<longrightarrow> get_current_streak dm u hid today = 0)
    \<and> ((\<forall>i<400. is_checked_in_today dm u hid (today - int i))
         \<longrightarrow> get_current_streak dm u hid today = 365)"
proof (intro conjI)
  note tw = get_current_streak_takeWhile [OF assms, of dm u hid]
  have "length (takeWhile (\<lambda>i. is_checked_in_today dm u hid (today - int i)) [0..<365])
          \<le> length [0..<365]"
    by (rule length_takeWhile_le)
  then show "0 \<le> get_current_streak dm u hid today" and "get_current_streak dm u hid today \<le> 365"
    using tw by simp_all
  show "get_current_streak dm u hid today =
           int (length (takeWhile (\<lambda>i. is_checked_in_today dm u hid (today - int i)) [0..<365]))"
    by (rule tw)
  show "is_checked_in_today dm u hid today \<and> is_checked_in_today dm u hid (today - 1)
         \<and> is_checked_in_today dm u hid (today - 2) \<and> \<not> is_checked_in_today dm u hid (today - 3)
         \<longrightarrow> get_current_streak dm u hid today = 3"
  proof
    assume h: "is_checked_in_today dm u hid today \<and> is_checked_in_today dm u hid (today - 1)
         \<and> is_checked_in_today dm u hid (today - 2) \<and> \<not> is_checked_in_today dm u hid (today - 3)"
    have "\<forall>i<3. is_checked_in_today dm u hid (today - int i)"
    proof (intro allI impI)
      fix i :: nat assume "i < 3"
      then have "i = 0 \<or> i = 1 \<or> i = 2" by arith
      then show "is_checked_in_today dm u hid (today - int i)" using h by auto
    qed
    then have "get_current_streak dm u hid today = int 3"
      using h by (intro get_current_streak_prefix assms) auto
    then show "get_current_streak dm u hid today = 3" by simp
  qed
  show "checkins dm = [] \<longrightarrow> get_current_streak dm u hid today = 0"
  proof
    assume "checkins dm = []"
    then have "\<not> is_checked_in_today dm u hid (today - int 0)"
      by (simp add: is_checked_in_today_def dict_get_def Let_def)
    then have "get_current_streak dm u hid today = int 0"
      by (intro get_current_streak_prefix assms) auto
    then show "get_current_streak dm u hid today = 0" by simp
  qed
  show "(\<forall>i<400. is_checked_in_today dm u hid (today - int i))
         \<longrightarrow> get_current_streak dm u hid today = 365"
  proof
    assume "\<forall>i<400. is_checked_in_today dm u hid (today - int i)"
    then have "\<forall>i<365. is_checked_in_today dm u hid (today - int i)" by auto
    then have "get_current_streak dm u hid today = int 365"
      by (intro get_current_streak_prefix assms) auto
    then show "get_current_streak dm u hid today = 365" by simp
  qed
qed

theorem current_streak_witness:
  "(365::int) \<le> 738945 \<and> (738945::int) \<le> 3652059
   \<and> is_checked_in_today (checkin_days (data_manager_init ''t0'') 1 ''h'' 738943 3) 1 ''h'' 738945
   \<and> is_checked_in_today (checkin_days (data_manager_init ''t0'') 1 ''h'' 738943 3) 1 ''h'' (738945 - 1)
   \<and> is_checked_in_today (checkin_days (data_manager_init ''t0'') 1 ''h'' 738943 3) 1 ''h'' (738945 - 2)
   \<and> \<not> is_checked_in_today (checkin_days (data_manager_init ''t0'') 1 ''h'' 738943 3) 1 ''h'' (738945 - 3)
   \<and> get_current_streak (checkin_days (data_manager_init ''t0'') 1 ''h'' 738943 3) 1 ''h'' 738945 = 3
   \<and> checkins (data_manager_init ''t0'') = []
   \<and> get_current_streak (data_manager_init ''t0'') 1 ''h'' 738945 = 0
   \<and> list_all (\<lambda>i. is_checked_in_today
                      (checkin_days (data_manager_init ''t0'') 1 ''h'' 738546 400) 1 ''h''
                      (738945 - int i)) [0..<400]
   \<and> get_current_streak (checkin_days (data_manager_init ''t0'') 1 ''h'' 738546 400) 1 ''h'' 738945
        = 365"
proof -
  let ?s3 = "checkin_days (data_manager_init ''t0'') 1 ''h'' 738943 3"
  let ?s400 = "checkin_days (data_manager_init ''t0'') 1 ''h'' 738546 400"
  have r: "(365::int) \<le> 738945" "(738945::int) \<le> 3652059" by simp_all
  have a: "is_checked_in_today ?s3 1 ''h'' 738945 \<and> is_checked_in_today ?s3 1 ''h'' (738945 - 1)
         \<and> is_checked_in_today ?s3 1 ''h'' (738945 - 2) \<and> \<not> is_checked_in_today ?s3 1 ''h'' (738945 - 3)"
    by (simp add: store_eval numeral_3_eq_3)
  have b: "checkins (data_manager_init ''t0'') = []"
    by (simp add: data_manager_init_def)
  have c: "\<forall>i<400. is_checked_in_today ?s400 1 ''h'' (738945 - int i)"
  proof (intro allI impI)
    fix i :: nat assume i: "i < 400"
    have "is_checked_in_today ?s400 1 ''h'' (738546 + int (399 - i))"
      using i by (intro checkin_days_checked_in all_by_init) simp
    moreover have "738546 + int (399 - i) = 738945 - int i" using i by simp
    ultimately show "is_checked_in_today ?s400 1 ''h'' (738945 - int i)" by simp
  qed
  have c': "list_all (\<lambda>i. is_checked_in_today ?s400 1 ''h'' (738945 - int i)) [0..<400]"
    using c by (simp add: list_all_iff)
  from current_streak [OF r, of ?s3 1 "''h''"] a
  have 1: "get_current_streak ?s3 1 ''h'' 738945 = 3" by blast
  from current_streak [OF r, of "data_manager_init ''t0''" 1 "''h''"] b
  have 2: "get_current_streak (data_manager_init ''t0'') 1 ''h'' 738945 = 0" by blast
  from current_streak [OF r, of ?s400 1 "''h''"] c
  have 3: "get_current_streak ?s400 1 ''h'' 738945 = 365" by blast
  from r a 1 b 2 c' 3 show ?thesis by blast
qed

subsection \<open>Bans\<close>

lemma ban_user_result: "fst (ban_user dm u reason by now ok) = ok"
  by (simp add: ban_user_def Let_def)

lemma ban_user_banned: "is_user_banned (snd (ban_user dm u reason by now ok)) u"
  by (simp add: ban_user_def is_user_banned_def Let_def dict_contains_def dict_set_def update_conv')

lemma unban_user_result:
  "fst (unban_user dm u by ok) = (is_user_banned dm u \<and> ok)"
  by (simp add: unban_user_def is_user_banned_def Let_def)

lemma unban_user_not_banned: "\<not> is_user_banned (snd (unban_user dm u by ok)) u"
  by (auto simp: unban_user_def is_user_banned_def Let_def dict_contains_def dict_del_def
        delete_conv')

text \<open>
  C3 (the code departs from the claim). The claim: \<open>ban_user\<close> returns False for a user who
  is already banned and leaves the ban record as it is. The code at the failing input: user
  5 is banned by admin 1 for \<open>spam\<close> and then banned again by admin 2 for \<open>again\<close>; the
  second call returns True and the record now holds the second reason, admin and time.
  \<open>ban_user\<close> never looks at the dictionary before it writes (lemma \<open>ban_user_result\<close>),
  unlike \<open>unban_user\<close>, which reports False for a user who is not banned (lemma
  \<open>unban_user_result\<close>). The parts of the claim about \<open>unban_user\<close> and \<open>is_user_banned\<close> hold
  (lemmas \<open>ban_user_banned\<close>, \<open>unban_user_not_banned\<close>).
\<close>

theorem ban_user_twice:
  "is_user_banned (snd (ban_user (data_manager_init ''t0'') 5 ''spam'' 1 ''t1'' True)) 5
   \<and> ban_user (snd (ban_user (data_manager_init ''t0'') 5 ''spam'' 1 ''t1'' True))
        5 ''again'' 2 ''t2'' True
      = (True, (data_manager_init ''t0'')\<lparr>banned_users :=
           [(''5'', \<lparr>ban_user_id = 5, ban_reason = ''again'', ban_banned_by = 2,
                     ban_banned_at = ''t2''\<rparr>)]\<rparr>)"
  by (simp add: ban_user_def is_user_banned_def str_int_def str_nat.simps digit_char_def
        dict_set_def dict_contains_def data_manager_init_def Let_def)

subsection \<open>Soft delete and listing\<close>

lemmas habit_eval =
  store_with_habit_def add_habit_def get_habit_def delete_habit_def get_user_habits_def
  get_active_def get_total_checkins_def store_eval

text \<open>
  C10. \<open>get_habit\<close> does not read the active flag: a habit of the querying user is returned
  whatever its flag is, so it is still returned after a soft delete. For a habit that
  \<open>get_habit\<close> finds, \<open>delete_habit\<close> returns the outcome of the save (True when the file
  was written) and stores the habit with the flag False and the deletion time; a second
  \<open>delete_habit\<close> of the same habit again returns the outcome of its save (True, not
  False) and replaces the deletion time by the new one.
\<close>

theorem soft_deleted_habit_visible:
  assumes "get_habit dm u hid = Some h"
  shows "fst (delete_habit dm u hid t1 ok1) = ok1
     \<and> get_habit (snd (delete_habit dm u hid t1 ok1)) u hid
         = Some (h\<lparr>habit_active := Some False, habit_deleted_at := Some t1\<rparr>)
     \<and> fst (delete_habit (snd (delete_habit dm u hid t1 ok1)) u hid t2 ok2) = ok2
     \<and> get_habit (snd (delete_habit (snd (delete_habit dm u hid t1 ok1)) u hid t2 ok2)) u hid
         = Some (h\<lparr>habit_active := Some False, habit_deleted_at := Some t2\<rparr>)
     \<and> get_habit (dm\<lparr>habits := dict_set (habits dm) hid (h\<lparr>habit_active := a\<rparr>)\<rparr>) u hid
         = Some (h\<lparr>habit_active := a\<rparr>)"
proof -
  have own: "habit_user_id h = u" and look: "dict_get (habits dm) hid = Some h"
    using assms by (auto simp: get_habit_def split: option.splits if_splits)
  let ?h1 = "h\<lparr>habit_active := Some False, habit_deleted_at := Some t1\<rparr>"
  have d1: "delete_habit dm u hid t1 ok1 = (ok1, dm\<lparr>habits := dict_set (habits dm) hid ?h1\<rparr>)"
    using assms by (simp add: delete_habit_def Let_def)
  have g1: "get_habit (dm\<lparr>habits := dict_set (habits dm) hid ?h1\<rparr>) u hid = Some ?h1"
    using own by (simp add: get_habit_def dict_get_set)
  have d2: "delete_habit (dm\<lparr>habits := dict_set (habits dm) hid ?h1\<rparr>) u hid t2 ok2 =
      (ok2, dm\<lparr>habits := dict_set (dict_set (habits dm) hid ?h1) hid
                 (h\<lparr>habit_active := Some False, habit_deleted_at := Some t2\<rparr>)\<rparr>)"
    using g1 by (simp add: delete_habit_def Let_def)
  show ?thesis
    using own d1 g1 d2 by (simp add: get_habit_def dict_get_set)
qed

theorem soft_deleted_habit_visible_witness:
  "get_habit store_with_habit 1 ''id1'' =
     Some \<lparr>habit_id = ''id1'', habit_user_id = 1, habit_name = [82, 117, 110],
           habit_frequency = ''daily'', habit_created_at = ''2024-02-29T08:00:00'',
           habit_active = Some True, habit_deleted_at = None\<rparr>
   \<and> fst (delete_habit store_with_habit 1 ''id1'' ''t1'' True) = True
   \<and> fst (delete_habit (snd (delete_habit store_with_habit 1 ''id1'' ''t1'' True))
             1 ''id1'' ''t2'' True) = True
   \<and> get_habit (snd (delete_habit (snd (delete_habit store_with_habit 1 ''id1'' ''t1'' True))
                        1 ''id1'' ''t2'' True)) 1 ''id1'' =
       Some \<lparr>habit_id = ''id1'', habit_user_id = 1, habit_name = [82, 117, 110],
             habit_frequency = ''daily'', habit_created_at = ''2024-02-29T08:00:00'',
             habit_active = Some False, habit_deleted_at = Some ''t2''\<rparr>"
proof -
  have h: "get_habit store_with_habit 1 ''id1'' =
     Some \<lparr>habit_id = ''id1'', habit_user_id = 1, habit_name = [82, 117, 110],
           habit_frequency = ''daily'', habit_created_at = ''2024-02-29T08:00:00'',
           habit_active = Some True, habit_deleted_at = None\<rparr>"
    by (simp add: habit_eval)
  show ?thesis
    using h soft_deleted_habit_visible [OF h, of "''t1''" True "''t2''" True]
    by simp
qed

lemma collect_user_habits_filter:
  "collect_user_habits items u acc =
     acc @ filter (\<lambda>h. habit_user_id h = u \<and> get_active h) (map snd items)"
  by (induction items u acc rule: collect_user_habits.induct) auto

lemma get_user_habits_sort:
  "get_user_habits dm u =
     sort_key habit_created_at
       (filter (\<lambda>h. habit_user_id h = u \<and> get_active h) (dict_values (habits dm)))"
  by (simp add: get_user_habits_def collect_user_habits_filter dict_values_def)

lemma count_checkins_filter:
  "count_checkins cs u hid n =
     n + int (length (filter (\<lambda>c. checkin_user_id c = u \<and> checkin_habit_id c = hid) cs))"
  by (induction cs u hid n rule: count_checkins.induct) auto

lemma delete_habit_checkins: "checkins (snd (delete_habit dm u hid now ok)) = checkins dm"
  by (simp add: delete_habit_def Let_def split: option.splits)

text \<open>
  C8. The listing of a user is the stable sort by \<open>created_at\<close> of the habits in the
  dictionary that belong to the user and whose active flag, read with the default True, is
  true: exactly those habits, in ascending order of the creation timestamp (ISO timestamps,
  compared as strings). The total of check-ins counts the check-in records of the user and
  habit and does not read the habits. After a soft delete the stored habit is inactive and is
  in no listing, and every total of check-ins is what it was before.
\<close>

theorem listing_and_soft_delete:
  "get_user_habits dm u =
     sort_key habit_created_at
       (filter (\<lambda>h. habit_user_id h = u \<and> get_active h) (dict_values (habits dm)))
   \<and> set (get_user_habits dm u) =
       {h \<in> set (dict_values (habits dm)). habit_user_id h = u \<and> get_active h}
   \<and> sorted (map habit_created_at (get_user_habits dm u))
   \<and> get_total_checkins dm u hid =
       int (length (filter (\<lambda>c. checkin_user_id c = u \<and> checkin_habit_id c = hid)
                      (dict_values (checkins dm))))
   \<and> (get_habit dm u hid = Some h \<longrightarrow>
        dict_get (habits (snd (delete_habit dm u hid now ok))) hid
          = Some (h\<lparr>habit_active := Some False, habit_deleted_at := Some now\<rparr>)
        \<and> h\<lparr>habit_active := Some False, habit_deleted_at := Some now\<rparr>
            \<notin> set (get_user_habits (snd (delete_habit dm u hid now ok)) u')
        \<and> get_total_checkins (snd (delete_habit dm u hid now ok)) u'' hid'
            = get_total_checkins dm u'' hid')"
proof (intro conjI impI)
  show "get_user_habits dm u =
     sort_key habit_created_at
       (filter (\<lambda>h. habit_user_id h = u \<and> get_active h) (dict_values (habits dm)))"
    by (rule get_user_habits_sort)
  show "set (get_user_habits dm u) =
       {h \<in> set (dict_values (habits dm)). habit_user_id h = u \<and> get_active h}"
    by (auto simp: get_user_habits_sort)
  show "sorted (map habit_created_at (get_user_habits dm u))"
    by (simp add: get_user_habits_sort)
  show "get_total_checkins dm u hid =
       int (length (filter (\<lambda>c. checkin_user_id c = u \<and> checkin_habit_id c = hid)
                      (dict_values (checkins dm))))"
    by (simp add: get_total_checkins_def count_checkins_filter)
next
  assume g: "get_habit dm u hid = Some h"
  show "dict_get (habits (snd (delete_habit dm u hid now ok))) hid
          = Some (h\<lparr>habit_active := Some False, habit_deleted_at := Some now\<rparr>)"
    using g by (simp add: delete_habit_def Let_def dict_get_set)
  show "h\<lparr>habit_active := Some False, habit_deleted_at := Some now\<rparr>
            \<notin> set (get_user_habits (snd (delete_habit dm u hid now ok)) u')"
    by (simp add: get_user_habits_sort get_active_def)
  show "get_total_checkins (snd (delete_habit dm u hid now ok)) u'' hid'
            = get_total_checkins dm u'' hid'"
    by (simp add: get_total_checkins_def delete_habit_checkins)
qed

theorem listing_and_soft_delete_witness:
  "get_habit store_with_habit 1 ''id1'' =
     Some \<lparr>habit_id = ''id1'', habit_user_id = 1, habit_name = [82, 117, 110],
           habit_frequency = ''daily'', habit_created_at = ''2024-02-29T08:00:00'',
           habit_active = Some True, habit_deleted_at = None\<rparr>
   \<and> get_user_habits store_with_habit 1 =
       [\<lparr>habit_id = ''id1'', habit_user_id = 1, habit_name = [82, 117, 110],
         habit_frequency = ''daily'', habit_created_at = ''2024-02-29T08:00:00'',
         habit_active = Some True, habit_deleted_at = None\<rparr>]
   \<and> get_user_habits (snd (delete_habit store_with_habit 1 ''id1'' ''t1'' True)) 1 = []
   \<and> get_total_checkins store_with_habit 1 ''id1'' = 1
   \<and> get_total_checkins (snd (delete_habit store_with_habit 1 ''id1'' ''t1'' True)) 1 ''id1''
       = get_total_checkins store_with_habit 1 ''id1''"
proof -
  have h: "get_habit store_with_habit 1 ''id1'' =
     Some \<lparr>habit_id = ''id1'', habit_user_id = 1, habit_name = [82, 117, 110],
           habit_frequency = ''daily'', habit_created_at = ''2024-02-29T08:00:00'',
           habit_active = Some True, habit_deleted_at = None\<rparr>"
    by (simp add: habit_eval)
  have l: "get_user_habits store_with_habit 1 =
       [\<lparr>habit_id = ''id1'', habit_user_id = 1, habit_name = [82, 117, 110],
         habit_frequency = ''daily'', habit_created_at = ''2024-02-29T08:00:00'',
         habit_active = Some True, habit_deleted_at = None\<rparr>]"
    by (simp add: habit_eval)
  have l': "get_user_habits (snd (delete_habit store_with_habit 1 ''id1'' ''t1'' True)) 1 = []"
    by (simp add: habit_eval)
  have c: "get_total_checkins store_with_habit 1 ''id1'' = 1"
    by (simp add: habit_eval)
  from listing_and_soft_delete [where dm = store_with_habit and u = 1 and hid = "''id1''"
         and now = "''t1''" and ok = True and u'' = 1 and hid' = "''id1''"] h
  have "get_total_checkins (snd (delete_habit store_with_habit 1 ''id1'' ''t1'' True)) 1 ''id1''
       = get_total_checkins store_with_habit 1 ''id1''"
    by blast
  with h l l' c show ?thesis by blast
qed

subsection \<open>The user of a check-in\<close>

lemma date_sub_days_zero: "date_sub_days today 0 = Inr d \<Longrightarrow> d = today"
  by (simp add: date_sub_days_def Let_def split: if_splits)

lemma streak_zero_without_today:
  assumes "\<not> is_checked_in_today dm u hid today"
  shows "get_current_streak dm u hid today = 0"
proof -
  have "streak_loop (checkins dm) u hid today (0 # [1..<365]) 0 \<in> {Inr 0, Inl OverflowError}"
  proof (cases "date_sub_days today (int 0)")
    case (Inl e)
    then show ?thesis by (cases e) (auto simp: date_sub_days_def Let_def split: if_splits)
  next
    case (Inr d)
    then have "d = today" by (simp add: date_sub_days_zero)
    then show ?thesis using Inr assms
      by (auto simp: is_checked_in_today_def Let_def split: option.splits)
  qed
  moreover have "[0..<365] = 0 # [1..<365]" by (simp add: upt_rec [of 0 365])
  ultimately show ?thesis by (auto simp: get_current_streak_def)
qed

text \<open>
  C9. Whether \<open>record_checkin\<close> rejects depends on the key of habit and date alone, not on
  the user; \<open>is_checked_in_today\<close> also asks that the stored check-in belongs to the
  user, and a day that is not checked in for the user gives the streak 0. So there is a
  store, with a check-in under the key of the habit and today by another user, in which
  \<open>record_checkin\<close> returns False for a user although \<open>is_checked_in_today\<close> is False for
  that user and the streak is 0.
\<close>

theorem checkin_actor_asymmetry:
  "fst (record_checkin dm u hid today now ok) =
     (ok \<and> \<not> dict_contains (checkins dm) (checkin_key hid (isoformat today)))
   \<and> is_checked_in_today dm u hid today =
       (\<exists>c. dict_get (checkins dm) (checkin_key hid (isoformat today)) = Some c
            \<and> checkin_user_id c = u)
   \<and> (\<not> is_checked_in_today dm u hid today \<longrightarrow> get_current_streak dm u hid today = 0)
   \<and> (\<exists>dm' v u' hid' today' now' c.
         dict_get (checkins dm') (checkin_key hid' (isoformat today')) = Some c
         \<and> checkin_user_id c = v \<and> v \<noteq> u'
         \<and> record_checkin dm' u' hid' today' now' True = (False, dm')
         \<and> \<not> is_checked_in_today dm' u' hid' today'
         \<and> get_current_streak dm' u' hid' today' = 0)"
proof (intro conjI)
  show "fst (record_checkin dm u hid today now ok) =
     (ok \<and> \<not> dict_contains (checkins dm) (checkin_key hid (isoformat today)))"
    by (simp add: record_checkin_def Let_def)
  show "is_checked_in_today dm u hid today =
       (\<exists>c. dict_get (checkins dm) (checkin_key hid (isoformat today)) = Some c
            \<and> checkin_user_id c = u)"
    by (auto simp: is_checked_in_today_def Let_def split: option.splits)
  show "\<not> is_checked_in_today dm u hid today \<longrightarrow> get_current_streak dm u hid today = 0"
    by (simp add: streak_zero_without_today)
  let ?dm = "checkin_days (data_manager_init ''t0'') 1 ''h'' 738945 1"
  have "dict_get (checkins ?dm) (checkin_key ''h'' (isoformat 738945)) =
          Some \<lparr>checkin_id = ''h_2024-02-29'', checkin_user_id = 1, checkin_habit_id = ''h'',
           checkin_date = ''2024-02-29'', checkin_timestamp = ''12:00''\<rparr>
        \<and> record_checkin ?dm 2 ''h'' 738945 ''12:05'' True = (False, ?dm)
        \<and> \<not> is_checked_in_today ?dm 2 ''h'' 738945
        \<and> get_current_streak ?dm 2 ''h'' 738945 = 0"
    by (simp add: store_eval streak_zero_without_today)
  then show "\<exists>dm' v u' hid' today' now' c.
         dict_get (checkins dm') (checkin_key hid' (isoformat today')) = Some c
         \<and> checkin_user_id c = v \<and> v \<noteq> u'
         \<and> record_checkin dm' u' hid' today' now' True = (False, dm')
         \<and> \<not> is_checked_in_today dm' u' hid' today'
         \<and> get_current_streak dm' u' hid' today' = 0"
    by (intro exI [of _ ?dm] exI [of _ 1] exI [of _ 2] exI [of _ "''h''"] exI [of _ 738945]
          exI [of _ "''12:05''"]
          exI [of _ "\<lparr>checkin_id = ''h_2024-02-29'', checkin_user_id = 1, checkin_habit_id = ''h'',
           checkin_date = ''2024-02-29'', checkin_timestamp = ''12:00''\<rparr>"]) simp
qed

theorem checkin_actor_asymmetry_witness:
  "\<not> is_checked_in_today (checkin_days (data_manager_init ''t0'') 1 ''h'' 738945 1) 2 ''h'' 738945
   \<and> is_checked_in_today (checkin_days (data_manager_init ''t0'') 1 ''h'' 738945 1) 1 ''h'' 738945
   \<and> fst (record_checkin (checkin_days (data_manager_init ''t0'') 1 ''h'' 738945 1)
            2 ''h'' 738945 ''12:05'' True) = False
   \<and> get_current_streak (checkin_days (data_manager_init ''t0'') 1 ''h'' 738945 1) 2 ''h'' 738945
       = 0
   \<and> get_current_streak (checkin_days (data_manager_init ''t0'') 1 ''h'' 738945 1) 1 ''h'' 738945
       = 1"
proof -
  let ?dm = "checkin_days (data_manager_init ''t0'') 1 ''h'' 738945 1"
  have a: "\<not> is_checked_in_today ?dm 2 ''h'' 738945" by (simp add: store_eval)
  have b: "is_checked_in_today ?dm 1 ''h'' 738945" by (simp add: store_eval)
  have c: "fst (record_checkin ?dm 2 ''h'' 738945 ''12:05'' True) = False"
    by (simp add: store_eval)
  have b': "\<not> is_checked_in_today ?dm 1 ''h'' (738945 - int 1)" by (simp add: store_eval)
  have "get_current_streak ?dm 1 ''h'' 738945 = int 1"
    using b b' by (intro get_current_streak_prefix) simp_all
  then have d: "get_current_streak ?dm 1 ''h'' 738945 = 1" by simp
  from checkin_actor_asymmetry [where dm = ?dm and u = 2 and hid = "''h''" and today = 738945] a
  have "get_current_streak ?dm 2 ''h'' 738945 = 0" by blast
  with a b c d show ?thesis by blast
qed

section \<open>Properties of the habit creation dialogue\<close>

text \<open>
  C6, as stated, fails: \<open>add_habit\<close> stores a habit with an empty name and the frequency
  \<open>hourly\<close>, which is not one of the three frequencies, and returns True.
\<close>

theorem habit_unvalidated_counterexample:
  "add_habit (data_manager_init ''t0'') 1 [] ''hourly'' ''id1'' ''t1'' True =
     (True, (data_manager_init ''t0'')\<lparr>habits :=
        [(''id1'', \<lparr>habit_id = ''id1'', habit_user_id = 1, habit_name = [],
                    habit_frequency = ''hourly'', habit_created_at = ''t1'',
                    habit_active = Some True, habit_deleted_at = None\<rparr>)]\<rparr>)"
  by (simp add: add_habit_def data_manager_init_def dict_set_def Let_def)

lemma frequency_map_values:
  assumes "dict_get frequency_map k = Some f"
  shows "f \<in> {''daily'', ''weekly'', ''3_times_week''}"
proof -
  have "(k, f) \<in> set frequency_map"
    using assms unfolding dict_get_def by (rule map_of_SomeD)
  then have "f \<in> snd ` set frequency_map" by force
  moreover have "snd ` set frequency_map = {''daily'', ''weekly'', ''3_times_week''}"
    unfolding frequency_map_def by auto
  ultimately show ?thesis by simp
qed

text \<open>
  C6 (amended). The input of a new habit is validated by the dialogue handlers, not by the
  store. \<open>process_habit_name\<close> accepts the text exactly when its stripped form has between 2
  and 50 characters; otherwise it replies with the length error and leaves the dialogue
  state as it is (it never writes to the store). \<open>process_habit_frequency\<close> passes to the
  store only one of the frequencies \<open>daily\<close>, \<open>weekly\<close> and \<open>3_times_week\<close>, with the name
  kept by the dialogue; an unknown phrase gets the error reply and changes neither the
  dialogue nor the store. \<open>add_habit\<close> itself validates nothing: for every name and
  frequency it stores an active habit with these fields under the generated identifier (as a
  new entry when the identifier is not yet a key) and returns the outcome of the save, a
  boolean and not the identifier.
\<close>

theorem habit_validation_in_dialogue:
  "fst (add_habit dm u name freq uuid now ok) = ok
   \<and> get_habit (snd (add_habit dm u name freq uuid now ok)) u uuid =
       Some \<lparr>habit_id = uuid, habit_user_id = u, habit_name = name, habit_frequency = freq,
             habit_created_at = now, habit_active = Some True, habit_deleted_at = None\<rparr>
   \<and> (\<not> dict_contains (habits dm) uuid \<longrightarrow>
        habits (snd (add_habit dm u name freq uuid now ok)) =
          habits dm @
          [(uuid, \<lparr>habit_id = uuid, habit_user_id = u, habit_name = name,
                   habit_frequency = freq, habit_created_at = now,
                   habit_active = Some True, habit_deleted_at = None\<rparr>)])
   \<and> ((\<exists>ctx'. process_habit_name ctx (Some input) = Inr (Add_habit_frequency_prompt, ctx'))
        \<longleftrightarrow> (2 \<le> length (strip input) \<and> length (strip input) \<le> 50))
   \<and> (length (strip input) < 2 \<or> 50 < length (strip input) \<longrightarrow>
        process_habit_name ctx (Some input) = Inr (Habit_name_length_error, ctx))
   \<and> (2 \<le> length (strip input) \<and> length (strip input) \<le> 50 \<longrightarrow>
        process_habit_name ctx (Some input) =
          Inr (Add_habit_frequency_prompt,
               ctx\<lparr>fsm_habit_name := Some (strip input),
                   fsm_state := Some Waiting_for_frequency\<rparr>))
   \<and> (process_habit_frequency lower ctx dm u msg uuid now ok = Inr (r, ctx', dm') \<longrightarrow>
        (r = Invalid_frequency_error \<and> ctx' = ctx \<and> dm' = dm) \<or>
        (\<exists>stored f. f \<in> {''daily'', ''weekly'', ''3_times_week''}
            \<and> fsm_habit_name ctx = Some stored
            \<and> dm' = snd (add_habit dm u stored f uuid now ok)
            \<and> r = (if ok then Habit_created_success else Habit_creation_error)
            \<and> ctx' = \<lparr>fsm_state = None, fsm_habit_name = None\<rparr>))"
proof (intro conjI impI)
  show "fst (add_habit dm u name freq uuid now ok) = ok"
    by (simp add: add_habit_def Let_def)
  show "get_habit (snd (add_habit dm u name freq uuid now ok)) u uuid =
       Some \<lparr>habit_id = uuid, habit_user_id = u, habit_name = name, habit_frequency = freq,
             habit_created_at = now, habit_active = Some True, habit_deleted_at = None\<rparr>"
    by (simp add: add_habit_def get_habit_def Let_def dict_get_set)
  show "(\<exists>ctx'. process_habit_name ctx (Some input) = Inr (Add_habit_frequency_prompt, ctx'))
        \<longleftrightarrow> (2 \<le> length (strip input) \<and> length (strip input) \<le> 50)"
    by (auto simp: process_habit_name_def Let_def)
next
  assume "\<not> dict_contains (habits dm) uuid"
  then show "habits (snd (add_habit dm u name freq uuid now ok)) =
          habits dm @
          [(uuid, \<lparr>habit_id = uuid, habit_user_id = u, habit_name = name,
                   habit_frequency = freq, habit_created_at = now,
                   habit_active = Some True, habit_deleted_at = None\<rparr>)]"
    by (simp add: add_habit_def Let_def dict_set_new)
next
  assume "length (strip input) < 2 \<or> 50 < length (strip input)"
  then show "process_habit_name ctx (Some input) = Inr (Habit_name_length_error, ctx)"
    by (simp add: process_habit_name_def Let_def)
next
  assume "2 \<le> length (strip input) \<and> length (strip input) \<le> 50"
  then show "process_habit_name ctx (Some input) =
          Inr (Add_habit_frequency_prompt,
               ctx\<lparr>fsm_habit_name := Some (strip input),
                   fsm_state := Some Waiting_for_frequency\<rparr>)"
    by (simp add: process_habit_name_def Let_def)
next
  assume p: "process_habit_frequency lower ctx dm u msg uuid now ok = Inr (r, ctx', dm')"
  then obtain input' where msg: "msg = Some input'"
    by (cases msg) (simp_all add: process_habit_frequency_def)
  show "(r = Invalid_frequency_error \<and> ctx' = ctx \<and> dm' = dm) \<or>
        (\<exists>stored f. f \<in> {''daily'', ''weekly'', ''3_times_week''}
            \<and> fsm_habit_name ctx = Some stored
            \<and> dm' = snd (add_habit dm u stored f uuid now ok)
            \<and> r = (if ok then Habit_created_success else Habit_creation_error)
            \<and> ctx' = \<lparr>fsm_state = None, fsm_habit_name = None\<rparr>)"
  proof (cases "dict_get frequency_map (lower (strip input'))")
    case None
    then show ?thesis using p msg by (simp add: process_habit_frequency_def Let_def)
  next
    case (Some f)
    then have f: "f \<in> {''daily'', ''weekly'', ''3_times_week''}"
      by (rule frequency_map_values)
    obtain stored where st: "fsm_habit_name ctx = Some stored"
      using p msg Some by (cases "fsm_habit_name ctx") (simp_all add: process_habit_frequency_def Let_def)
    have "fst (add_habit dm u stored f uuid now ok) = ok"
      by (simp add: add_habit_def Let_def)
    then have "dm' = snd (add_habit dm u stored f uuid now ok)
            \<and> r = (if ok then Habit_created_success else Habit_creation_error)
            \<and> ctx' = \<lparr>fsm_state = None, fsm_habit_name = None\<rparr>"
      using p msg Some st
      by (auto simp: process_habit_frequency_def Let_def split: prod.splits)
    then show ?thesis using f st by blast
  qed
qed

theorem habit_validation_in_dialogue_witness:
  "\<not> dict_contains (habits (data_manager_init ''t0'')) ''id1''
   \<and> habits (snd (add_habit (data_manager_init ''t0'') 1 [] ''hourly'' ''id1'' ''t1'' True)) =
       [(''id1'', \<lparr>habit_id = ''id1'', habit_user_id = 1, habit_name = [],
                   habit_frequency = ''hourly'', habit_created_at = ''t1'',
                   habit_active = Some True, habit_deleted_at = None\<rparr>)]
   \<and> strip [32, 97, 32] = [97]
   \<and> process_habit_name \<lparr>fsm_state = Some Waiting_for_name, fsm_habit_name = None\<rparr>
        (Some [32, 97, 32])
       = Inr (Habit_name_length_error,
              \<lparr>fsm_state = Some Waiting_for_name, fsm_habit_name = None\<rparr>)
   \<and> strip [32, 82, 117, 110, 10] = [82, 117, 110]
   \<and> process_habit_name \<lparr>fsm_state = Some Waiting_for_name, fsm_habit_name = None\<rparr>
        (Some [32, 82, 117, 110, 10])
       = Inr (Add_habit_frequency_prompt,
              \<lparr>fsm_state = Some Waiting_for_frequency, fsm_habit_name = Some [82, 117, 110]\<rparr>)
   \<and> process_habit_frequency (\<lambda>t. t)
        \<lparr>fsm_state = Some Waiting_for_frequency, fsm_habit_name = Some [82, 117, 110]\<rparr>
        (data_manager_init ''t0'') 1 (Some [100, 97, 105, 108, 121]) ''id1'' ''t1'' True
       = Inr (Habit_created_success, \<lparr>fsm_state = None, fsm_habit_name = None\<rparr>,
              snd (add_habit (data_manager_init ''t0'') 1 [82, 117, 110] ''daily'' ''id1''
                     ''t1'' True))"
proof -
  let ?c0 = "\<lparr>fsm_state = Some Waiting_for_name, fsm_habit_name = None\<rparr>"
  let ?c1 = "\<lparr>fsm_state = Some Waiting_for_frequency, fsm_habit_name = Some [82, 117, 110]\<rparr>"
  have a: "\<not> dict_contains (habits (data_manager_init ''t0'')) ''id1''"
    by (simp add: store_eval)
  have s1: "strip [32, 97, 32] = [97]" and s2: "strip [32, 82, 117, 110, 10] = [82, 117, 110]"
    by (simp_all add: strip_def isspace_def)
  have f: "process_habit_frequency (\<lambda>t. t) ?c1 (data_manager_init ''t0'') 1
             (Some [100, 97, 105, 108, 121]) ''id1'' ''t1'' True
       = Inr (Habit_created_success, \<lparr>fsm_state = None, fsm_habit_name = None\<rparr>,
              snd (add_habit (data_manager_init ''t0'') 1 [82, 117, 110] ''daily'' ''id1''
                     ''t1'' True))"
    by (simp add: process_habit_frequency_def strip_def isspace_def frequency_map_def
          dict_get_def add_habit_def Let_def)
  note A = habit_validation_in_dialogue [where dm = "data_manager_init ''t0''" and u = 1
      and name = "[]" and freq = "''hourly''" and uuid = "''id1''" and now = "''t1''"
      and ok = True and ctx = ?c0 and input = "[32, 97, 32]"]
  note B = habit_validation_in_dialogue [where ctx = ?c0 and input = "[32, 82, 117, 110, 10]"]
  from A a have 1: "habits (snd (add_habit (data_manager_init ''t0'') 1 [] ''hourly'' ''id1'' ''t1'' True)) =
       [(''id1'', \<lparr>habit_id = ''id1'', habit_user_id = 1, habit_name = [],
                   habit_frequency = ''hourly'', habit_created_at = ''t1'',
                   habit_active = Some True, habit_deleted_at = None\<rparr>)]"
    by (simp add: data_manager_init_def)
  from A s1 have 2: "process_habit_name ?c0 (Some [32, 97, 32]) = Inr (Habit_name_length_error, ?c0)"
    by simp
  from B s2 have 3: "process_habit_name ?c0 (Some [32, 82, 117, 110, 10])
       = Inr (Add_habit_frequency_prompt, ?c1)"
    by simp
  from a 1 s1 2 s2 3 f show ?thesis by blast
qed

end
